theory Spec2Isabelle
  imports Complex_Main "HOL-Library.Word"
begin

text \<open>
  The chat relay (\<^verbatim>\<open>src/app/api/chat/route.ts\<close>) and the floating chat widget
  (\<^verbatim>\<open>src/components/ui/FloatingChat.tsx\<close>) of the learning-management application, as
  functions on JavaScript values with explicit effects and exceptions, and what they
  guarantee.
\<close>

section \<open>JavaScript values\<close>

text \<open>
  A JavaScript string is a sequence of UTF-16 code units. String literals of the source
  are written \<open>js ''...''\<close>.
\<close>

type_synonym code_unit = "16 word"

type_synonym js_string = "code_unit list"

definition js :: "string \<Rightarrow> js_string" where
  "js s = map of_char s"

text \<open>
  The values that \<^verbatim>\<open>JSON.parse\<close> produces, together with \<^verbatim>\<open>undefined\<close>, which reading
  an absent property yields. \<open>JObj\<close> lists the own properties of the parsed object (each
  key once). The number type of the runtime (IEEE doubles) is the type parameter \<open>'n\<close>;
  the two operations on numbers that the program reaches are fields of \<open>js_runtime\<close>.
\<close>

datatype 'n jsval =
    JUndefined
  | JNull
  | JBool bool
  | JNum 'n
  | JStr js_string
  | JArr "'n jsval list"
  | JObj "(js_string \<times> 'n jsval) list"

record 'n js_runtime =
  number_falsy :: "'n \<Rightarrow> bool"  \<comment> \<open>the number is \<open>+0\<close>, \<open>-0\<close> or \<open>NaN\<close>\<close>
  number_to_string :: "'n \<Rightarrow> js_string"  \<comment> \<open>\<^verbatim>\<open>Number::toString\<close>\<close>

datatype js_error =
    SyntaxError  \<comment> \<open>a body that is not JSON\<close>
  | TypeError  \<comment> \<open>a property read on \<^verbatim>\<open>null\<close> or \<^verbatim>\<open>undefined\<close>, a failed conversion\<close>
  | Error js_string  \<comment> \<open>\<^verbatim>\<open>new Error(message)\<close>, and any other rejection with its message\<close>

text \<open>\<^verbatim>\<open>!v\<close>: the falsy values are \<^verbatim>\<open>undefined\<close>, \<^verbatim>\<open>null\<close>, \<^verbatim>\<open>false\<close>, \<^verbatim>\<open>0\<close>, \<^verbatim>\<open>NaN\<close> and \<^verbatim>\<open>''\<close>.\<close>

fun falsy :: "'n js_runtime \<Rightarrow> 'n jsval \<Rightarrow> bool" where
  "falsy rt JUndefined = True"
| "falsy rt JNull = True"
| "falsy rt (JBool b) = (\<not> b)"
| "falsy rt (JNum n) = number_falsy rt n"
| "falsy rt (JStr s) = (s = [])"
| "falsy rt (JArr xs) = False"
| "falsy rt (JObj kvs) = False"

text \<open>\<^verbatim>\<open>a || b\<close>\<close>

definition or_else :: "'n js_runtime \<Rightarrow> 'n jsval \<Rightarrow> 'n jsval \<Rightarrow> 'n jsval" where
  "or_else rt a b = (if falsy rt a then b else a)"

fun nullish :: "'n jsval \<Rightarrow> bool" where
  "nullish JUndefined = True"
| "nullish JNull = True"
| "nullish v = False"

text \<open>
  Reading property \<open>k\<close> of a value that is neither \<^verbatim>\<open>null\<close> nor \<^verbatim>\<open>undefined\<close>, for the
  property names of this program (\<^verbatim>\<open>query\<close>, \<^verbatim>\<open>subject\<close>, \<^verbatim>\<open>candidates\<close>, \<^verbatim>\<open>content\<close>,
  \<^verbatim>\<open>parts\<close>, \<^verbatim>\<open>text\<close>, \<^verbatim>\<open>error\<close>, \<^verbatim>\<open>message\<close>, \<^verbatim>\<open>success\<close>, \<^verbatim>\<open>response\<close>): none of them is
  defined on a built-in prototype, so only an object's own property can answer.
\<close>

fun own_prop :: "'n jsval \<Rightarrow> js_string \<Rightarrow> 'n jsval" where
  "own_prop (JObj kvs) k = (case map_of kvs k of None \<Rightarrow> JUndefined | Some v \<Rightarrow> v)"
| "own_prop v k = JUndefined"

text \<open>\<^verbatim>\<open>v.k\<close> throws a TypeError on \<^verbatim>\<open>null\<close> and \<^verbatim>\<open>undefined\<close>; \<^verbatim>\<open>v?.k\<close> is \<^verbatim>\<open>undefined\<close> there.\<close>

definition get_prop :: "'n jsval \<Rightarrow> js_string \<Rightarrow> js_error + 'n jsval" where
  "get_prop v k = (if nullish v then Inl TypeError else Inr (own_prop v k))"

definition opt_prop :: "'n jsval \<Rightarrow> js_string \<Rightarrow> 'n jsval" where
  "opt_prop v k = (if nullish v then JUndefined else own_prop v k)"

text \<open>
  \<^verbatim>\<open>v[0]\<close>: the first element of an array, the first code unit of a string, the own
  property \<^verbatim>\<open>"0"\<close> of an object; \<^verbatim>\<open>v?.[0]\<close> is \<^verbatim>\<open>undefined\<close> on \<^verbatim>\<open>null\<close> and \<^verbatim>\<open>undefined\<close>.
\<close>

fun index0 :: "'n jsval \<Rightarrow> 'n jsval" where
  "index0 (JArr []) = JUndefined"
| "index0 (JArr (x # xs)) = x"
| "index0 (JStr []) = JUndefined"
| "index0 (JStr (c # cs)) = JStr [c]"
| "index0 (JObj kvs) = own_prop (JObj kvs) (js ''0'')"
| "index0 v = JUndefined"

definition opt_index0 :: "'n jsval \<Rightarrow> 'n jsval" where
  "opt_index0 v = (if nullish v then JUndefined else index0 v)"

text \<open>
  The conversion to a string that a template literal applies to \<^verbatim>\<open>${v}\<close>. An array is
  joined with commas, \<^verbatim>\<open>null\<close> and \<^verbatim>\<open>undefined\<close> elements giving the empty string. A parsed
  object is \<^verbatim>\<open>[object Object]\<close>, unless it has an own property \<^verbatim>\<open>toString\<close>: that is never
  a function, \<^verbatim>\<open>valueOf\<close> does not give a primitive either, and the conversion throws.
\<close>

fun to_string :: "'n js_runtime \<Rightarrow> 'n jsval \<Rightarrow> js_error + js_string"
  and join_elements :: "'n js_runtime \<Rightarrow> 'n jsval list \<Rightarrow> js_error + js_string"
where
  "to_string rt JUndefined = Inr (js ''undefined'')"
| "to_string rt JNull = Inr (js ''null'')"
| "to_string rt (JBool b) = Inr (if b then js ''true'' else js ''false'')"
| "to_string rt (JNum n) = Inr (number_to_string rt n)"
| "to_string rt (JStr s) = Inr s"
| "to_string rt (JArr xs) = join_elements rt xs"
| "to_string rt (JObj kvs) =
     (case map_of kvs (js ''toString'') of
        None \<Rightarrow> Inr (js ''[object Object]'')
      | Some f \<Rightarrow> Inl TypeError)"
| "join_elements rt [] = Inr []"
| "join_elements rt (x # xs) =
     (case (if nullish x then Inr [] else to_string rt x) of
        Inl e \<Rightarrow> Inl e
      | Inr s \<Rightarrow>
          (if xs = [] then Inr s
           else case join_elements rt xs of
                  Inl e \<Rightarrow> Inl e
                | Inr t \<Rightarrow> Inr (s @ js '','' @ t)))"

section \<open>Computations with effects and exceptions\<close>

text \<open>
  A computation runs on a state, changes it, and either returns a value or throws. The
  state outlives a throw: what was done before it stays done.
\<close>

type_synonym ('s, 'a) comp = "'s \<Rightarrow> (js_error + 'a) \<times> 's"

definition return :: "'a \<Rightarrow> ('s, 'a) comp" where
  "return x = (\<lambda>s. (Inr x, s))"

definition throw :: "js_error \<Rightarrow> ('s, 'a) comp" where
  "throw e = (\<lambda>s. (Inl e, s))"

definition bind :: "('s, 'a) comp \<Rightarrow> ('a \<Rightarrow> ('s, 'b) comp) \<Rightarrow> ('s, 'b) comp" where
  "bind m f = (\<lambda>s. case m s of (Inl e, s') \<Rightarrow> (Inl e, s') | (Inr x, s') \<Rightarrow> f x s')"

text \<open>\<^verbatim>\<open>try { m } catch (error) { h error }\<close>\<close>

definition try_catch :: "('s, 'a) comp \<Rightarrow> (js_error \<Rightarrow> ('s, 'a) comp) \<Rightarrow> ('s, 'a) comp" where
  "try_catch m h = (\<lambda>s. case m s of (Inl e, s') \<Rightarrow> h e s' | (Inr x, s') \<Rightarrow> (Inr x, s'))"

text \<open>
  \<^verbatim>\<open>await p\<close> for a promise that has settled: the value it resolved with, or a throw of
  what it rejected with. Also the result of an expression that may throw.
\<close>

definition await :: "js_error + 'a \<Rightarrow> ('s, 'a) comp" where
  "await r = (case r of Inl e \<Rightarrow> throw e | Inr x \<Rightarrow> return x)"

section \<open>The outside world\<close>

record 'b fetch_request =
  url :: js_string
  http_method :: js_string
  headers :: "(js_string \<times> js_string) list"
  body :: 'b  \<comment> \<open>the value given to \<^verbatim>\<open>JSON.stringify\<close>\<close>

text \<open>
  What \<^verbatim>\<open>fetch\<close> resolves with. \<^verbatim>\<open>response.ok\<close> is the Fetch standard's: the status is in
  the range 200 to 299. \<^verbatim>\<open>response.json()\<close> rejects when the body is not JSON.
\<close>

record 'n fetch_response =
  status :: nat
  statusText :: js_string
  json :: "js_error + 'n jsval"

definition ok :: "'n fetch_response \<Rightarrow> bool" where
  "ok r = (200 \<le> status r \<and> status r \<le> 299)"

text \<open>What a handler does to the world, in order.\<close>

datatype 'b effect =
    Fetch "'b fetch_request"
  | ConsoleError js_string js_error
  | PreventDefault

text \<open>
  \<^verbatim>\<open>await fetch(url, init)\<close>: the call is recorded, and the world answers with a response
  or with a rejection (a network failure).
\<close>

definition fetch ::
  "('b fetch_request \<Rightarrow> js_error + 'n fetch_response) \<Rightarrow> 'b fetch_request \<Rightarrow>
   ('b effect list, 'n fetch_response) comp" where
  "fetch world req = (\<lambda>tr. (world req, tr @ [Fetch req]))"

definition console_error :: "js_string \<Rightarrow> js_error \<Rightarrow> ('b effect list, unit) comp" where
  "console_error label e = (\<lambda>tr. (Inr (), tr @ [ConsoleError label e]))"

text \<open>The outbound calls of a trace.\<close>

fun fetches :: "'b effect list \<Rightarrow> 'b fetch_request list" where
  "fetches [] = []"
| "fetches (Fetch r # es) = r # fetches es"
| "fetches (e # es) = fetches es"

section \<open>The chat relay: \<^verbatim>\<open>src/app/api/chat/route.ts\<close>\<close>

text \<open>
  The configuration of a deployment: the environment variable, and the string literal
  that line 15 falls back to. The literal is a credential, so it is a parameter here and
  every theorem holds for each value of it.
\<close>

record deployment =
  GEMINI_API_KEY :: "js_string option"
  literal_key :: js_string

text \<open>\<^verbatim>\<open>process.env.GEMINI_API_KEY || '...'\<close>: an unset and an empty variable both fall back.\<close>

definition apiKey :: "deployment \<Rightarrow> js_string" where
  "apiKey d =
     (case GEMINI_API_KEY d of
        None \<Rightarrow> literal_key d
      | Some k \<Rightarrow> if k = [] then literal_key d else k)"

definition baseURL :: js_string where
  "baseURL = js ''https://generativelanguage.googleapis.com/v1beta''"

text \<open>The template literal of lines 19 to 25; \<^verbatim>\<open>${subject}\<close> is converted before \<^verbatim>\<open>${query}\<close>.\<close>

definition prompt :: "'n js_runtime \<Rightarrow> 'n jsval \<Rightarrow> 'n jsval \<Rightarrow> js_error + js_string" where
  "prompt rt subject query =
     (case to_string rt subject of
        Inl e \<Rightarrow> Inl e
      | Inr s \<Rightarrow>
          (case to_string rt query of
             Inl e \<Rightarrow> Inl e
           | Inr q \<Rightarrow> Inr (
               js ''You are a helpful study assistant for students. \<newline>''
               @ js ''    Subject: '' @ s @ js ''\<newline>''
               @ js ''    Student Question: '' @ q @ js ''\<newline>''
               @ js ''    \<newline>''
               @ js ''    Please provide a clear, educational answer that helps the student understand the topic. \<newline>''
               @ js ''    Keep your response informative but concise, suitable for a student learning environment.\<newline>''
               @ js ''    If the question is not related to the specified subject, gently redirect them to ask subject-relevant questions.'')))"

record part =
  part_text :: js_string

record content =
  role :: js_string
  parts :: "part list"

record generation_config =
  temperature :: rat
  maxOutputTokens :: nat
  topP :: nat

record request_body =
  contents :: "content list"
  generationConfig :: generation_config

definition requestBody :: "js_string \<Rightarrow> request_body" where
  "requestBody p =
     \<lparr>contents = [\<lparr>role = js ''user'', parts = [\<lparr>part_text = p\<rparr>]\<rparr>],
      generationConfig = \<lparr>temperature = 7 / 10, maxOutputTokens = 2000, topP = 1\<rparr>\<rparr>"

text \<open>The URL and the second argument of the \<^verbatim>\<open>fetch\<close> of lines 41 to 48.\<close>

definition provider_request :: "deployment \<Rightarrow> js_string \<Rightarrow> request_body fetch_request" where
  "provider_request d p =
     \<lparr>url = baseURL @ js ''/models/gemini-1.5-flash:generateContent'',
      http_method = js ''POST'',
      headers = [(js ''Content-Type'', js ''application/json''),
                 (js ''x-goog-api-key'', apiKey d)],
      body = requestBody p\<rparr>"

text \<open>\<^verbatim>\<open>data.candidates?.[0]?.content?.parts?.[0]?.text\<close>: only the first read can throw.\<close>

definition candidate_text :: "'n jsval \<Rightarrow> js_error + 'n jsval" where
  "candidate_text data =
     (case get_prop data (js ''candidates'') of
        Inl e \<Rightarrow> Inl e
      | Inr candidates \<Rightarrow>
          Inr (opt_prop (opt_index0 (opt_prop (opt_prop (opt_index0 candidates)
                 (js ''content'')) (js ''parts''))) (js ''text'')))"

text \<open>\<^verbatim>\<open>errorData.error?.message\<close>\<close>

definition error_message :: "'n jsval \<Rightarrow> js_error + 'n jsval" where
  "error_message errorData =
     (case get_prop errorData (js ''error'') of
        Inl e \<Rightarrow> Inl e
      | Inr err \<Rightarrow> Inr (opt_prop err (js ''message'')))"

text \<open>\<^verbatim>\<open>NextResponse.json(value, { status })\<close>; the status is 200 when none is given.\<close>

record 'n http_response =
  http_status :: nat
  payload :: "'n jsval"

definition invalid_input :: "'n http_response" where
  "invalid_input =
     \<lparr>http_status = 400,
      payload = JObj [(js ''success'', JBool False),
                      (js ''error'', JStr (js ''Query and subject are required''))]\<rparr>"

definition answer :: "'n jsval \<Rightarrow> 'n http_response" where
  "answer t =
     \<lparr>http_status = 200,
      payload = JObj [(js ''success'', JBool True), (js ''response'', t)]\<rparr>"

definition provider_error :: "'n http_response" where
  "provider_error =
     \<lparr>http_status = 500,
      payload = JObj [(js ''success'', JBool False),
                      (js ''error'', JStr (js ''Failed to get response from AI assistant''))]\<rparr>"

text \<open>
  The body of the \<^verbatim>\<open>try\<close> block of \<^verbatim>\<open>POST\<close>. \<open>world\<close> is the provider and the network
  between; \<open>request_json\<close> is what \<^verbatim>\<open>request.json()\<close> settles with.
\<close>

definition POST_try ::
  "'n js_runtime \<Rightarrow> deployment \<Rightarrow>
   (request_body fetch_request \<Rightarrow> js_error + 'n fetch_response) \<Rightarrow>
   js_error + 'n jsval \<Rightarrow> (request_body effect list, 'n http_response) comp" where
  "POST_try rt d world request_json =
     bind (await request_json) (\<lambda>parsed.
     bind (await (get_prop parsed (js ''query''))) (\<lambda>query.
     bind (await (get_prop parsed (js ''subject''))) (\<lambda>subject.
       if falsy rt query \<or> falsy rt subject then return invalid_input
       else
     bind (await (prompt rt subject query)) (\<lambda>p.
     bind (fetch world (provider_request d p)) (\<lambda>response.
     bind (if \<not> ok response then
             bind (await (json response)) (\<lambda>errorData.
             bind (await (error_message errorData)) (\<lambda>m.
             bind (await (to_string rt (or_else rt m (JStr (statusText response))))) (\<lambda>detail.
               throw (Error (js ''Google API error: '' @ detail)))))
           else return ()) (\<lambda>_.
     bind (await (json response)) (\<lambda>data.
     bind (await (candidate_text data)) (\<lambda>t.
       return (answer (or_else rt t (JStr (js ''No response received''))))))))))))"

text \<open>\<^verbatim>\<open>POST\<close>: whatever the \<^verbatim>\<open>try\<close> block throws is logged and answered with status 500.\<close>

definition POST ::
  "'n js_runtime \<Rightarrow> deployment \<Rightarrow>
   (request_body fetch_request \<Rightarrow> js_error + 'n fetch_response) \<Rightarrow>
   js_error + 'n jsval \<Rightarrow> (request_body effect list, 'n http_response) comp" where
  "POST rt d world request_json =
     try_catch (POST_try rt d world request_json) (\<lambda>error.
       bind (console_error (js ''Chat API Error:'') error) (\<lambda>_.
       return provider_error))"

section \<open>The chat widget: \<^verbatim>\<open>src/components/ui/FloatingChat.tsx\<close>\<close>

text \<open>The five \<^verbatim>\<open>useState\<close> hooks. \<^verbatim>\<open>data.response\<close> is untyped, so \<open>response\<close> holds any value.\<close>

record 'n widget_state =
  isOpen :: bool
  query :: js_string
  subject :: js_string
  response :: "'n jsval"
  loading :: bool

definition initial_state :: "'n widget_state" where
  "initial_state =
     \<lparr>isOpen = False, query = [], subject = [], response = JStr [], loading = False\<rparr>"

definition subjects :: "js_string list" where
  "subjects =
     [js ''Mathematics'', js ''Physics'', js ''Chemistry'', js ''Biology'',
      js ''Computer Science'', js ''English'', js ''History'', js ''Geography'',
      js ''General'']"

text \<open>
  \<^verbatim>\<open>String.prototype.trim\<close> removes the white space and line terminators of ECMAScript
  from both ends: TAB, LF, VT, FF, CR, SP, NBSP, U+1680, U+2000 to U+200A, LS, PS,
  U+202F, U+205F, U+3000 and U+FEFF.
\<close>

definition is_white_space :: "code_unit \<Rightarrow> bool" where
  "is_white_space c =
     ((0x0009 \<le> c \<and> c \<le> 0x000D) \<or> c = 0x0020 \<or> c = 0x00A0 \<or> c = 0x1680
      \<or> (0x2000 \<le> c \<and> c \<le> 0x200A) \<or> c = 0x2028 \<or> c = 0x2029 \<or> c = 0x202F
      \<or> c = 0x205F \<or> c = 0x3000 \<or> c = 0xFEFF)"

definition trim :: "js_string \<Rightarrow> js_string" where
  "trim s = rev (dropWhile is_white_space (rev (dropWhile is_white_space s)))"

text \<open>
  A handler runs on the hooks and on the trace of what it did to the world. A setter
  replaces one hook and leaves the others as they are at that moment.
\<close>

type_synonym 'n widget_world = "'n widget_state \<times> 'n jsval effect list"

definition setIsOpen :: "bool \<Rightarrow> ('n widget_world, unit) comp" where
  "setIsOpen b = (\<lambda>(s, tr). (Inr (), (s\<lparr>isOpen := b\<rparr>, tr)))"

definition setQuery :: "js_string \<Rightarrow> ('n widget_world, unit) comp" where
  "setQuery q = (\<lambda>(s, tr). (Inr (), (s\<lparr>query := q\<rparr>, tr)))"

definition setSubject :: "js_string \<Rightarrow> ('n widget_world, unit) comp" where
  "setSubject sj = (\<lambda>(s, tr). (Inr (), (s\<lparr>subject := sj\<rparr>, tr)))"

definition setResponse :: "'n jsval \<Rightarrow> ('n widget_world, unit) comp" where
  "setResponse v = (\<lambda>(s, tr). (Inr (), (s\<lparr>response := v\<rparr>, tr)))"

definition setLoading :: "bool \<Rightarrow> ('n widget_world, unit) comp" where
  "setLoading b = (\<lambda>(s, tr). (Inr (), (s\<lparr>loading := b\<rparr>, tr)))"

definition preventDefault :: "('n widget_world, unit) comp" where
  "preventDefault = (\<lambda>(s, tr). (Inr (), (s, tr @ [PreventDefault])))"

text \<open>The call of \<^verbatim>\<open>fetch\<close> in \<^verbatim>\<open>handleSubmit\<close>: it sends the request and returns a promise.\<close>

definition send :: "'n jsval fetch_request \<Rightarrow> ('n widget_world, unit) comp" where
  "send req = (\<lambda>(s, tr). (Inr (), (s, tr @ [Fetch req])))"

text \<open>The object \<^verbatim>\<open>{ query, subject }\<close> of line 37.\<close>

definition chat_json :: "js_string \<Rightarrow> js_string \<Rightarrow> 'n jsval" where
  "chat_json q sj = JObj [(js ''query'', JStr q), (js ''subject'', JStr sj)]"

definition chat_request :: "js_string \<Rightarrow> js_string \<Rightarrow> 'n jsval fetch_request" where
  "chat_request q sj =
     \<lparr>url = js ''/api/chat'',
      http_method = js ''POST'',
      headers = [(js ''Content-Type'', js ''application/json'')],
      body = chat_json q sj\<rparr>"

definition failure_text :: js_string where
  "failure_text = js ''Sorry, I encountered an error. Please try again.''"

text \<open>
  \<^verbatim>\<open>handleSubmit\<close> up to its first \<^verbatim>\<open>await\<close>, on the hooks of the render it was created in.
  It returns the request whose answer it waits for, if it sent one.
\<close>

definition handleSubmit_start :: "('n widget_world, 'n jsval fetch_request option) comp" where
  "handleSubmit_start = (\<lambda>(s, tr).
     bind preventDefault (\<lambda>_.
       if trim (query s) = [] \<or> subject s = [] then return None
       else
     bind (setLoading True) (\<lambda>_.
     bind (setResponse (JStr [])) (\<lambda>_.
     bind (send (chat_request (query s) (subject s))) (\<lambda>_.
       return (Some (chat_request (query s) (subject s))))))) (s, tr))"

text \<open>
  \<^verbatim>\<open>handleSubmit\<close> from the moment the promise of \<^verbatim>\<open>fetch\<close> settles with \<open>outcome\<close>: the rest
  of the \<^verbatim>\<open>try\<close> block, the \<^verbatim>\<open>catch\<close>, and \<^verbatim>\<open>setLoading(false)\<close>. It runs on the hooks as
  they are then, whatever happened to them in between.
\<close>

definition handleSubmit_resume ::
  "'n js_runtime \<Rightarrow> js_error + 'n fetch_response \<Rightarrow> ('n widget_world, unit) comp" where
  "handleSubmit_resume rt outcome =
     bind (try_catch
            (bind (await outcome) (\<lambda>res.
             bind (await (json res)) (\<lambda>data.
             bind (await (get_prop data (js ''success''))) (\<lambda>success.
               if \<not> falsy rt success then
                 bind (await (get_prop data (js ''response''))) (\<lambda>r. setResponse r)
               else setResponse (JStr failure_text)))))
            (\<lambda>error. setResponse (JStr failure_text))) (\<lambda>_.
     setLoading False)"

text \<open>\<^verbatim>\<open>handleSubmit\<close> when nothing else touches the hooks while it waits.\<close>

definition handleSubmit ::
  "'n js_runtime \<Rightarrow> ('n jsval fetch_request \<Rightarrow> js_error + 'n fetch_response) \<Rightarrow>
   ('n widget_world, unit) comp" where
  "handleSubmit rt world =
     bind handleSubmit_start (\<lambda>sent.
       case sent of
         None \<Rightarrow> return ()
       | Some req \<Rightarrow> handleSubmit_resume rt (world req))"

definition clearChat :: "('n widget_world, unit) comp" where
  "clearChat =
     bind (setQuery []) (\<lambda>_.
     bind (setResponse (JStr [])) (\<lambda>_.
     setSubject []))"

text \<open>The \<^verbatim>\<open>onClick\<close> of the floating button.\<close>

definition toggle :: "('n widget_world, unit) comp" where
  "toggle = (\<lambda>(s, tr). setIsOpen (\<not> isOpen s) (s, tr))"

text \<open>The \<^verbatim>\<open>disabled\<close> attribute of the submit button.\<close>

definition submit_disabled :: "'n widget_state \<Rightarrow> bool" where
  "submit_disabled s = (loading s \<or> trim (query s) = [] \<or> subject s = [])"

text \<open>What the response area of lines 135 to 149 shows.\<close>

datatype 'n display = Hidden | Thinking | Shown "'n jsval"

definition response_area :: "'n js_runtime \<Rightarrow> 'n widget_state \<Rightarrow> 'n display" where
  "response_area rt s =
     (if \<not> falsy rt (response s) \<or> loading s then
        (if loading s then Thinking else Shown (response s))
      else Hidden)"

text \<open>The phases of the widget that the spec names.\<close>

datatype phase = Idle | Pending | Answered | Failed

text \<open>
  Modelled from the spec: the phase of a widget state, which the source does not store.
  The spec's \<open>Pending\<close> is a call in flight with the submit control disabled, which in
  the source is the hook \<open>loading\<close>; without a call in flight the phase is read from
  \<open>response\<close> as the response area reads it: nothing to show is \<open>Idle\<close>, the fixed
  message of the failure path is \<open>Failed\<close>, anything else is \<open>Answered\<close>.
\<close>

definition phase :: "'n js_runtime \<Rightarrow> 'n widget_state \<Rightarrow> phase" where
  "phase rt s =
     (if loading s then Pending
      else if falsy rt (response s) then Idle
      else if response s = JStr failure_text then Failed
      else Answered)"

section \<open>Sample inputs\<close>

text \<open>A runtime cut down to the single number \<open>0\<close>, for the examples below.\<close>

definition sample_runtime :: "unit js_runtime" where
  "sample_runtime = \<lparr>number_falsy = (\<lambda>n. True), number_to_string = (\<lambda>n. js ''0'')\<rparr>"

definition sample_deployment :: deployment where
  "sample_deployment = \<lparr>GEMINI_API_KEY = Some (js ''secret''), literal_key = js ''literal''\<rparr>"

text \<open>A reply of the provider with one candidate that has one part.\<close>

definition provider_reply :: "'n jsval \<Rightarrow> 'n jsval" where
  "provider_reply t =
     JObj [(js ''candidates'',
            JArr [JObj [(js ''content'',
                         JObj [(js ''parts'', JArr [JObj [(js ''text'', t)]])])]])]"

text \<open>A world in which every call resolves with status \<open>n\<close> and the JSON body \<open>v\<close>.\<close>

definition resolves :: "nat \<Rightarrow> 'n jsval \<Rightarrow> 'b fetch_request \<Rightarrow> js_error + 'n fetch_response" where
  "resolves n v = (\<lambda>req. Inr \<lparr>status = n, statusText = [], json = Inr v\<rparr>)"

text \<open>A world in which every call is rejected.\<close>

definition rejects :: "js_error \<Rightarrow> 'b fetch_request \<Rightarrow> js_error + 'n fetch_response" where
  "rejects e = (\<lambda>req. Inl e)"

section \<open>Basic facts\<close>

lemma of_char_less_256: "(of_char c :: nat) < 256"
  by (metis of_char_mod_256 mod_less_divisor zero_less_numeral)

lemma unat_of_char: "unat (of_char c :: 16 word) = of_char c"
proof -
  have "(of_char c :: 16 word) = of_nat (of_char c)"
    by (simp add: of_nat_of_char)
  moreover have "(of_char c :: nat) < 2 ^ 16"
    using of_char_less_256 [of c] by (rule less_trans) simp
  ultimately show ?thesis
    by (simp add: unat_of_nat)
qed

lemma of_char_word_eq: "(of_char a :: 16 word) = of_char b \<longleftrightarrow> a = b"
proof
  assume "(of_char a :: 16 word) = of_char b"
  then have "unat (of_char a :: 16 word) = unat (of_char b :: 16 word)"
    by simp
  then have "(of_char a :: nat) = of_char b"
    by (simp only: unat_of_char)
  then show "a = b"
    by simp
qed simp

lemma js_inject [simp]: "js a = js b \<longleftrightarrow> a = b"
  unfolding js_def
  by (rule inj_map_eq_map) (simp add: inj_def of_char_word_eq)

lemma js_Nil [simp]: "js s = [] \<longleftrightarrow> s = []" "[] = js s \<longleftrightarrow> s = []"
  by (auto simp: js_def)

lemmas comp_defs = bind_def return_def throw_def try_catch_def await_def

lemma get_prop_Inr: "\<not> nullish v \<Longrightarrow> get_prop v k = Inr (own_prop v k)"
  by (simp add: get_prop_def)

lemma POST_try_invalid:
  assumes "\<not> nullish parsed"
    and "falsy rt (own_prop parsed (js ''query'')) \<or> falsy rt (own_prop parsed (js ''subject''))"
  shows "POST_try rt d world (Inr parsed) tr = (Inr invalid_input, tr)"
  using assms by (auto simp add: POST_try_def comp_defs get_prop_def)

lemma POST_try_nullish:
  assumes "nullish parsed"
  shows "POST_try rt d world (Inr parsed) tr = (Inl TypeError, tr)"
  using assms by (simp add: POST_try_def comp_defs get_prop_def)

lemma POST_try_prompt_throws:
  assumes "\<not> nullish parsed"
    and "\<not> falsy rt (own_prop parsed (js ''query''))"
    and "\<not> falsy rt (own_prop parsed (js ''subject''))"
    and "prompt rt (own_prop parsed (js ''subject'')) (own_prop parsed (js ''query'')) = Inl e"
  shows "POST_try rt d world (Inr parsed) tr = (Inl e, tr)"
  using assms by (simp add: POST_try_def comp_defs get_prop_def)

lemma POST_try_rejected:
  assumes "\<not> nullish parsed"
    and "\<not> falsy rt (own_prop parsed (js ''query''))"
    and "\<not> falsy rt (own_prop parsed (js ''subject''))"
    and "prompt rt (own_prop parsed (js ''subject'')) (own_prop parsed (js ''query'')) = Inr p"
    and "world (provider_request d p) = Inl e"
  shows "POST_try rt d world (Inr parsed) tr = (Inl e, tr @ [Fetch (provider_request d p)])"
  using assms by (simp add: POST_try_def comp_defs get_prop_def fetch_def)

lemma POST_try_not_ok:
  assumes "\<not> nullish parsed"
    and "\<not> falsy rt (own_prop parsed (js ''query''))"
    and "\<not> falsy rt (own_prop parsed (js ''subject''))"
    and "prompt rt (own_prop parsed (js ''subject'')) (own_prop parsed (js ''query'')) = Inr p"
    and "world (provider_request d p) = Inr r"
    and "\<not> ok r"
  shows "\<exists>e. POST_try rt d world (Inr parsed) tr = (Inl e, tr @ [Fetch (provider_request d p)])"
  using assms by (simp add: POST_try_def comp_defs get_prop_def fetch_def split: sum.splits)

lemma POST_try_ok:
  assumes "\<not> nullish parsed"
    and "\<not> falsy rt (own_prop parsed (js ''query''))"
    and "\<not> falsy rt (own_prop parsed (js ''subject''))"
    and "prompt rt (own_prop parsed (js ''subject'')) (own_prop parsed (js ''query'')) = Inr p"
    and "world (provider_request d p) = Inr r"
    and "ok r"
  shows "POST_try rt d world (Inr parsed) tr =
    (case json r of
       Inl e \<Rightarrow> Inl e
     | Inr data \<Rightarrow>
         (case candidate_text data of
            Inl e \<Rightarrow> Inl e
          | Inr t \<Rightarrow> Inr (answer (or_else rt t (JStr (js ''No response received''))))),
     tr @ [Fetch (provider_request d p)])"
  using assms by (simp add: POST_try_def comp_defs get_prop_def fetch_def split: sum.splits)

lemma POST_returns:
  "POST_try rt d world request_json tr = (Inr x, tr') \<Longrightarrow>
   POST rt d world request_json tr = (Inr x, tr')"
  by (simp add: POST_def comp_defs)

lemma POST_catches:
  "POST_try rt d world request_json tr = (Inl e, tr') \<Longrightarrow>
   POST rt d world request_json tr =
     (Inr provider_error, tr' @ [ConsoleError (js ''Chat API Error:'') e])"
  by (simp add: POST_def comp_defs console_error_def)

lemma js_append: "js (a @ b) = js a @ js b"
  by (simp add: js_def)

lemma get_prop_Inr_iff: "get_prop v k = Inr x \<longleftrightarrow> \<not> nullish v \<and> own_prop v k = x"
  by (auto simp: get_prop_def)

lemma prompt_strings: "\<exists>p. prompt rt (JStr sj) (JStr q) = Inr p"
  by (simp add: prompt_def)

lemma candidate_text_null: "candidate_text JNull = Inl TypeError"
  by (simp add: candidate_text_def get_prop_def)

lemma candidate_text_total: "\<not> nullish data \<Longrightarrow> \<exists>t. candidate_text data = Inr t"
  by (simp add: candidate_text_def get_prop_def)

lemma candidate_text_reply [simp]: "candidate_text (provider_reply t) = Inr t"
  by (cases t) (simp_all add: candidate_text_def provider_reply_def get_prop_def opt_prop_def opt_index0_def)

lemma candidate_text_missing:
  "candidate_text (JObj []) = Inr JUndefined"
  "candidate_text (JObj [(js ''candidates'', JArr [])]) = Inr JUndefined"
  "candidate_text (JObj [(js ''candidates'', JArr [JObj []])]) = Inr JUndefined"
  "candidate_text (JObj [(js ''candidates'', JArr [JObj [(js ''content'', JObj [])]])]) = Inr JUndefined"
  "candidate_text (JObj [(js ''candidates'', JArr [JObj [(js ''content'', JObj [(js ''parts'', JArr [])])]])]) = Inr JUndefined"
  "candidate_text (JObj [(js ''candidates'', JArr [JObj [(js ''content'', JObj [(js ''parts'', JArr [JObj []])])]])]) = Inr JUndefined"
  by (simp_all add: candidate_text_def get_prop_def opt_prop_def opt_index0_def)

lemma chat_json_props [simp]:
  "\<not> nullish (chat_json q sj)"
  "own_prop (chat_json q sj) (js ''query'') = JStr q"
  "own_prop (chat_json q sj) (js ''subject'') = JStr sj"
  "get_prop (chat_json q sj) (js ''query'') = Inr (JStr q)"
  "get_prop (chat_json q sj) (js ''subject'') = Inr (JStr sj)"
  by (simp_all add: chat_json_def get_prop_def)

lemma fetches_append: "fetches (xs @ ys) = fetches xs @ fetches ys"
  by (induction xs rule: fetches.induct) simp_all

lemma POST_try_trace:
  assumes "\<not> nullish parsed"
    and "\<not> falsy rt (own_prop parsed (js ''query''))"
    and "\<not> falsy rt (own_prop parsed (js ''subject''))"
    and "prompt rt (own_prop parsed (js ''subject'')) (own_prop parsed (js ''query'')) = Inr p"
  shows "snd (POST_try rt d world (Inr parsed) tr) = tr @ [Fetch (provider_request d p)]"
proof (cases "world (provider_request d p)")
  case (Inl e)
  with assms show ?thesis
    by (simp add: POST_try_rejected)
next
  case (Inr r)
  show ?thesis
  proof (cases "ok r")
    case True
    with assms Inr show ?thesis
      by (simp add: POST_try_ok)
  next
    case False
    with assms Inr POST_try_not_ok [of parsed rt p world d r tr] show ?thesis
      by auto
  qed
qed

lemma fetches_POST:
  "fetches (snd (POST rt d world request_json tr)) =
   fetches (snd (POST_try rt d world request_json tr))"
proof (cases "POST_try rt d world request_json tr")
  case (Pair res tr')
  then show ?thesis
    by (cases res) (simp_all add: POST_returns POST_catches fetches_append)
qed

lemma POST_answer:
  assumes "get_prop parsed (js ''query'') = Inr q"
    and "get_prop parsed (js ''subject'') = Inr sj"
    and "\<not> falsy rt q" and "\<not> falsy rt sj"
    and "prompt rt sj q = Inr p"
    and "world (provider_request d p) = Inr r"
    and "ok r"
    and "json r = Inr data"
    and "candidate_text data = Inr t"
  shows "POST rt d world (Inr parsed) [] =
    (Inr (answer (or_else rt t (JStr (js ''No response received'')))),
     [Fetch (provider_request d p)])"
proof -
  from assms have "POST_try rt d world (Inr parsed) [] =
    (Inr (answer (or_else rt t (JStr (js ''No response received'')))),
     [] @ [Fetch (provider_request d p)])"
    by (subst POST_try_ok [where p = p and r = r]) (auto simp: get_prop_Inr_iff)
  then show ?thesis
    by (simp add: POST_returns)
qed

lemma POST_provider_failure:
  assumes "get_prop parsed (js ''query'') = Inr q"
    and "get_prop parsed (js ''subject'') = Inr sj"
    and "\<not> falsy rt q" and "\<not> falsy rt sj"
    and "prompt rt sj q = Inr p"
    and "(\<exists>e. world (provider_request d p) = Inl e)
       \<or> (\<exists>r. world (provider_request d p) = Inr r \<and> \<not> ok r)"
  shows "\<exists>e. POST rt d world (Inr parsed) [] =
    (Inr provider_error,
     [Fetch (provider_request d p), ConsoleError (js ''Chat API Error:'') e])"
proof -
  from assms have pre: "\<not> nullish parsed"
    "\<not> falsy rt (own_prop parsed (js ''query''))"
    "\<not> falsy rt (own_prop parsed (js ''subject''))"
    "prompt rt (own_prop parsed (js ''subject'')) (own_prop parsed (js ''query'')) = Inr p"
    by (auto simp: get_prop_Inr_iff)
  have "\<exists>e. POST_try rt d world (Inr parsed) [] = (Inl e, [] @ [Fetch (provider_request d p)])"
    using assms(6)
  proof (elim disjE exE conjE)
    fix e assume "world (provider_request d p) = Inl e"
    with pre show ?thesis
      by (auto simp: POST_try_rejected)
  next
    fix r assume "world (provider_request d p) = Inr r" "\<not> ok r"
    with pre show ?thesis
      by (rule POST_try_not_ok)
  qed
  then obtain e where
    "POST_try rt d world (Inr parsed) [] = (Inl e, [Fetch (provider_request d p)])"
    by auto
  then have "POST rt d world (Inr parsed) [] =
    (Inr provider_error, [Fetch (provider_request d p), ConsoleError (js ''Chat API Error:'') e])"
    by (simp add: POST_catches)
  then show ?thesis ..
qed

lemma POST_prompt_throws:
  assumes "get_prop parsed (js ''query'') = Inr q"
    and "get_prop parsed (js ''subject'') = Inr sj"
    and "\<not> falsy rt q" and "\<not> falsy rt sj"
    and "prompt rt sj q = Inl e"
  shows "POST rt d world (Inr parsed) [] =
    (Inr provider_error, [ConsoleError (js ''Chat API Error:'') e])"
proof -
  from assms have "POST_try rt d world (Inr parsed) [] = (Inl e, [])"
    by (subst POST_try_prompt_throws [where e = e]) (auto simp: get_prop_Inr_iff)
  then show ?thesis
    by (simp add: POST_catches)
qed

lemma POST_try_not_ok_detail:
  assumes "\<not> nullish parsed"
    and "\<not> falsy rt (own_prop parsed (js ''query''))"
    and "\<not> falsy rt (own_prop parsed (js ''subject''))"
    and "prompt rt (own_prop parsed (js ''subject'')) (own_prop parsed (js ''query'')) = Inr p"
    and "world (provider_request d p) = Inr r"
    and "\<not> ok r"
    and "json r = Inr errorData"
    and "error_message errorData = Inr m"
    and "to_string rt (or_else rt m (JStr (statusText r))) = Inr detail"
  shows "POST_try rt d world (Inr parsed) tr =
    (Inl (Error (js ''Google API error: '' @ detail)), tr @ [Fetch (provider_request d p)])"
  using assms by (simp add: POST_try_def comp_defs get_prop_def fetch_def)

section \<open>The relay: validation and the catch-all\<close>

text \<open>
  Claim C10. A request whose body is not JSON makes \<^verbatim>\<open>request.json()\<close> reject inside the
  \<^verbatim>\<open>try\<close> block: the rejection is logged and the relay answers with status 500 and the
  generic body, not with the 400 of the validation. Nothing is sent to the provider.
\<close>

theorem relay_unparseable_body:
  "POST (rt :: 'n js_runtime) d world (Inl e) [] =
     (Inr provider_error, [ConsoleError (js ''Chat API Error:'') e])
   \<and> http_status (provider_error :: 'n http_response) = 500
   \<and> (provider_error :: 'n http_response) \<noteq> invalid_input"
  by (simp add: POST_def POST_try_def comp_defs console_error_def provider_error_def invalid_input_def)

theorem relay_unparseable_body_witness:
  "POST sample_runtime sample_deployment (resolves 200 (provider_reply (JStr (js ''Hello''))))
     (Inl SyntaxError) [] =
   (Inr provider_error, [ConsoleError (js ''Chat API Error:'') SyntaxError])"
  using relay_unparseable_body [of sample_runtime sample_deployment
      "resolves 200 (provider_reply (JStr (js ''Hello'')))" SyntaxError]
  by simp

text \<open>
  Claim C1, amended. The relay tests \<^verbatim>\<open>!query || !subject\<close> and does not trim. When the
  body is a JSON value from which \<^verbatim>\<open>query\<close> and \<^verbatim>\<open>subject\<close> can be read, and one of the
  two is falsy (absent, \<^verbatim>\<open>null\<close>, \<^verbatim>\<open>false\<close>, \<^verbatim>\<open>0\<close> or the empty string), the relay answers
  with status 400 and \<^verbatim>\<open>{ success: false, error: 'Query and subject are required' }\<close>,
  and no call is made to the provider.
\<close>

theorem relay_rejects_missing_input:
  assumes "get_prop parsed (js ''query'') = Inr q"
    and "get_prop parsed (js ''subject'') = Inr sj"
    and "falsy (rt :: 'n js_runtime) q \<or> falsy rt sj"
  shows "POST rt d world (Inr parsed) [] = (Inr invalid_input, [])
    \<and> http_status (invalid_input :: 'n http_response) = 400"
proof -
  from assms have "\<not> nullish parsed"
    and "falsy rt (own_prop parsed (js ''query'')) \<or> falsy rt (own_prop parsed (js ''subject''))"
    by (auto simp: get_prop_Inr_iff)
  then have "POST_try rt d world (Inr parsed) [] = (Inr invalid_input, [])"
    by (rule POST_try_invalid)
  then show ?thesis
    by (simp add: POST_returns invalid_input_def)
qed

theorem relay_rejects_missing_input_witness:
  "falsy sample_runtime (JStr []) \<and>
   POST sample_runtime sample_deployment (resolves 200 (provider_reply (JStr (js ''Hello''))))
     (Inr (chat_json [] (js ''Physics''))) [] = (Inr invalid_input, [])"
  using relay_rejects_missing_input [of "chat_json [] (js ''Physics'')" "JStr []"
      "JStr (js ''Physics'')" sample_runtime sample_deployment
      "resolves 200 (provider_reply (JStr (js ''Hello'')))"]
  by simp

text \<open>
  Claim C1 as stated fails: a question of three spaces is empty after trimming, yet the
  relay accepts it, calls the provider and relays the answer.
\<close>

theorem relay_forwards_blank_question:
  "trim (js ''   '') = []
   \<and> fst (POST sample_runtime sample_deployment (resolves 200 (provider_reply (JStr (js ''Hello''))))
        (Inr (chat_json (js ''   '') (js ''Physics''))) []) = Inr (answer (JStr (js ''Hello'')))
   \<and> length (fetches (snd (POST sample_runtime sample_deployment
        (resolves 200 (provider_reply (JStr (js ''Hello''))))
        (Inr (chat_json (js ''   '') (js ''Physics''))) []))) = 1"
proof -
  obtain p where p: "prompt sample_runtime (JStr (js ''Physics'')) (JStr (js ''   '')) = Inr p"
    using prompt_strings by blast
  have "POST sample_runtime sample_deployment (resolves 200 (provider_reply (JStr (js ''Hello''))))
        (Inr (chat_json (js ''   '') (js ''Physics''))) [] =
    (Inr (answer (or_else sample_runtime (JStr (js ''Hello'')) (JStr (js ''No response received'')))),
     [Fetch (provider_request sample_deployment p)])"
    by (rule POST_answer [where q = "JStr (js ''   '')" and sj = "JStr (js ''Physics'')" and p = p
          and data = "provider_reply (JStr (js ''Hello''))"
          and r = "\<lparr>status = 200, statusText = [], json = Inr (provider_reply (JStr (js ''Hello'')))\<rparr>"])
       (simp_all add: p resolves_def ok_def)
  moreover have "trim (js ''   '') = []"
    by (simp add: trim_def js_def is_white_space_def)
  ultimately show ?thesis
    by (simp add: or_else_def)
qed

section \<open>The relay: failures of the provider\<close>

text \<open>
  Claim C2. Once a request has passed the validation, a call to the provider that is
  rejected (a network failure) or that resolves with a status outside 200 to 299 ends in
  the catch-all: the relay answers with status 500 and the fixed body
  \<^verbatim>\<open>{ success: false, error: 'Failed to get response from AI assistant' }\<close>, the same
  for every failure, and what went wrong is written to the log only.
\<close>

theorem relay_hides_provider_failure:
  assumes "get_prop parsed (js ''query'') = Inr q"
    and "get_prop parsed (js ''subject'') = Inr sj"
    and "\<not> falsy (rt :: 'n js_runtime) q" and "\<not> falsy rt sj"
    and "\<forall>req. (\<exists>e. world req = Inl e) \<or> (\<exists>r. world req = Inr r \<and> \<not> ok r)"
  shows "\<exists>tr e. POST rt d world (Inr parsed) [] =
      (Inr provider_error, tr @ [ConsoleError (js ''Chat API Error:'') e])
    \<and> http_status (provider_error :: 'n http_response) = 500
    \<and> payload (provider_error :: 'n http_response) =
        JObj [(js ''success'', JBool False),
              (js ''error'', JStr (js ''Failed to get response from AI assistant''))]"
proof (cases "prompt rt sj q")
  case (Inl e)
  with assms have "POST rt d world (Inr parsed) [] =
    (Inr provider_error, [] @ [ConsoleError (js ''Chat API Error:'') e])"
    by (simp add: POST_prompt_throws)
  then show ?thesis
    by (auto simp: provider_error_def)
next
  case (Inr p)
  from assms(5) have "(\<exists>e. world (provider_request d p) = Inl e)
       \<or> (\<exists>r. world (provider_request d p) = Inr r \<and> \<not> ok r)"
    by blast
  with assms Inr obtain e where "POST rt d world (Inr parsed) [] =
    (Inr provider_error,
     [Fetch (provider_request d p)] @ [ConsoleError (js ''Chat API Error:'') e])"
    using POST_provider_failure [of parsed q sj rt p world d] by auto
  then show ?thesis
    by (auto simp: provider_error_def)
qed

theorem relay_hides_provider_failure_witness:
  "\<exists>tr e. POST sample_runtime sample_deployment
      (resolves 403 (JObj [(js ''error'', JObj [(js ''message'', JStr (js ''API key not valid''))])]))
      (Inr (chat_json (js ''What is inertia?'') (js ''Physics''))) [] =
    (Inr provider_error, tr @ [ConsoleError (js ''Chat API Error:'') e])"
  using relay_hides_provider_failure [of "chat_json (js ''What is inertia?'') (js ''Physics'')"
      "JStr (js ''What is inertia?'')" "JStr (js ''Physics'')" sample_runtime
      "resolves 403 (JObj [(js ''error'', JObj [(js ''message'', JStr (js ''API key not valid''))])])"
      sample_deployment]
  by (simp add: resolves_def ok_def)

text \<open>
  The detail that the provider sent goes to the log, and the answer does not carry it.
\<close>

lemma relay_logs_provider_detail:
  "\<exists>p. POST sample_runtime sample_deployment
      (resolves 403 (JObj [(js ''error'', JObj [(js ''message'', JStr (js ''API key not valid''))])]))
      (Inr (chat_json (js ''What is inertia?'') (js ''Physics''))) [] =
    (Inr provider_error,
     [Fetch (provider_request sample_deployment p),
      ConsoleError (js ''Chat API Error:'') (Error (js ''Google API error: API key not valid''))])"
proof -
  obtain p where p: "prompt sample_runtime (JStr (js ''Physics'')) (JStr (js ''What is inertia?'')) = Inr p"
    using prompt_strings by blast
  have m: "error_message (JObj [(js ''error'', JObj [(js ''message'', JStr (js ''API key not valid''))])]
      :: unit jsval) = Inr (JStr (js ''API key not valid''))"
    by (simp add: error_message_def get_prop_def opt_prop_def)
  have "POST_try sample_runtime sample_deployment
      (resolves 403 (JObj [(js ''error'', JObj [(js ''message'', JStr (js ''API key not valid''))])]))
      (Inr (chat_json (js ''What is inertia?'') (js ''Physics''))) [] =
    (Inl (Error (js ''Google API error: '' @ js ''API key not valid'')),
     [] @ [Fetch (provider_request sample_deployment p)])"
    by (rule POST_try_not_ok_detail [where m = "JStr (js ''API key not valid'')"
          and errorData = "JObj [(js ''error'', JObj [(js ''message'', JStr (js ''API key not valid''))])]"
          and r = "\<lparr>status = 403, statusText = [],
            json = Inr (JObj [(js ''error'', JObj [(js ''message'', JStr (js ''API key not valid''))])])\<rparr>"])
       (simp_all add: p m resolves_def ok_def or_else_def)
  moreover have "js ''Google API error: '' @ js ''API key not valid'' =
      js ''Google API error: API key not valid''"
    by (simp only: js_def map_append [symmetric] append.simps)
  ultimately have run: "POST sample_runtime sample_deployment
      (resolves 403 (JObj [(js ''error'', JObj [(js ''message'', JStr (js ''API key not valid''))])]))
      (Inr (chat_json (js ''What is inertia?'') (js ''Physics''))) [] =
    (Inr provider_error,
     [Fetch (provider_request sample_deployment p),
      ConsoleError (js ''Chat API Error:'') (Error (js ''Google API error: API key not valid''))])"
    by (simp add: POST_catches)
  show ?thesis
    by (rule exI [of _ p]) (rule run)
qed

section \<open>The relay: answers of the provider\<close>

text \<open>
  Claim C3, amended. When the provider resolves with a status from 200 to 299 (200 among
  them) and the first candidate's text in the response JSON is a non-empty string, the
  relay answers with status 200 and \<^verbatim>\<open>{ success: true, response: text }\<close>, the text
  unchanged.
\<close>

theorem relay_returns_candidate_text:
  assumes "get_prop parsed (js ''query'') = Inr q"
    and "get_prop parsed (js ''subject'') = Inr sj"
    and "\<not> falsy rt q" and "\<not> falsy rt sj"
    and "prompt rt sj q = Inr p"
    and "world (provider_request d p) = Inr r"
    and "ok r"
    and "json r = Inr data"
    and "candidate_text data = Inr (JStr t)"
    and "t \<noteq> []"
  shows "POST rt d world (Inr parsed) [] =
    (Inr (answer (JStr t)), [Fetch (provider_request d p)])"
  using assms POST_answer [of parsed q sj rt p world d r data "JStr t"]
  by (simp add: or_else_def)

theorem relay_returns_candidate_text_witness:
  "candidate_text (provider_reply (JStr (js ''Inertia is resistance to change.'')) :: unit jsval) =
     Inr (JStr (js ''Inertia is resistance to change.''))
   \<and> (\<exists>p. POST sample_runtime sample_deployment
        (resolves 200 (provider_reply (JStr (js ''Inertia is resistance to change.''))))
        (Inr (chat_json (js ''What is inertia?'') (js ''Physics''))) [] =
      (Inr (answer (JStr (js ''Inertia is resistance to change.''))),
       [Fetch (provider_request sample_deployment p)]))"
proof -
  obtain p where p: "prompt sample_runtime (JStr (js ''Physics'')) (JStr (js ''What is inertia?'')) = Inr p"
    using prompt_strings by blast
  have run: "POST sample_runtime sample_deployment
        (resolves 200 (provider_reply (JStr (js ''Inertia is resistance to change.''))))
        (Inr (chat_json (js ''What is inertia?'') (js ''Physics''))) [] =
      (Inr (answer (JStr (js ''Inertia is resistance to change.''))),
       [Fetch (provider_request sample_deployment p)])"
    by (rule relay_returns_candidate_text [where q = "JStr (js ''What is inertia?'')"
          and sj = "JStr (js ''Physics'')"
          and data = "provider_reply (JStr (js ''Inertia is resistance to change.''))"
          and r = "\<lparr>status = 200, statusText = [],
            json = Inr (provider_reply (JStr (js ''Inertia is resistance to change.'')))\<rparr>"])
       (simp_all add: p resolves_def ok_def)
  have "\<exists>p. POST sample_runtime sample_deployment
        (resolves 200 (provider_reply (JStr (js ''Inertia is resistance to change.''))))
        (Inr (chat_json (js ''What is inertia?'') (js ''Physics''))) [] =
      (Inr (answer (JStr (js ''Inertia is resistance to change.''))),
       [Fetch (provider_request sample_deployment p)])"
    by (rule exI [of _ p]) (rule run)
  then show ?thesis
    by simp
qed

text \<open>
  Claim C3 as stated fails: a first candidate whose text is the empty string is a text
  that the response contains, and the relay answers with \<open>No response received\<close>
  instead of it.
\<close>

theorem relay_replaces_empty_text:
  "candidate_text (provider_reply (JStr []) :: unit jsval) = Inr (JStr [])
   \<and> fst (POST sample_runtime sample_deployment (resolves 200 (provider_reply (JStr [])))
        (Inr (chat_json (js ''What is inertia?'') (js ''Physics''))) []) =
      Inr (answer (JStr (js ''No response received'')))
   \<and> answer (JStr (js ''No response received'')) \<noteq> (answer (JStr []) :: unit http_response)"
proof -
  obtain p where p: "prompt sample_runtime (JStr (js ''Physics'')) (JStr (js ''What is inertia?'')) = Inr p"
    using prompt_strings by blast
  have "POST sample_runtime sample_deployment (resolves 200 (provider_reply (JStr [])))
        (Inr (chat_json (js ''What is inertia?'') (js ''Physics''))) [] =
    (Inr (answer (or_else sample_runtime (JStr []) (JStr (js ''No response received'')))),
     [Fetch (provider_request sample_deployment p)])"
    by (rule POST_answer [where q = "JStr (js ''What is inertia?'')" and sj = "JStr (js ''Physics'')"
          and data = "provider_reply (JStr [])"
          and r = "\<lparr>status = 200, statusText = [], json = Inr (provider_reply (JStr []))\<rparr>"])
       (simp_all add: p resolves_def ok_def)
  then show ?thesis
    by (simp add: or_else_def answer_def)
qed

text \<open>
  Claim C4, amended. When the provider resolves with a status from 200 to 299, the
  response JSON is not \<^verbatim>\<open>null\<close>, and the chain of optional reads
  \<^verbatim>\<open>data.candidates?.[0]?.content?.parts?.[0]?.text\<close> ends in \<^verbatim>\<open>undefined\<close> (candidates,
  content, parts or text is missing), the relay answers with status 200 and the text
  \<open>No response received\<close>: a success, not a failure. The chain has a value on every
  JSON value but \<^verbatim>\<open>null\<close> (\<open>candidate_text_total\<close>).
\<close>

theorem relay_falls_back_without_text:
  assumes "get_prop parsed (js ''query'') = Inr q"
    and "get_prop parsed (js ''subject'') = Inr sj"
    and "\<not> falsy (rt :: 'n js_runtime) q" and "\<not> falsy rt sj"
    and "prompt rt sj q = Inr p"
    and "world (provider_request d p) = Inr r"
    and "ok r"
    and "json r = Inr data"
    and "data \<noteq> JNull"
    and "candidate_text data = Inr JUndefined"
  shows "POST rt d world (Inr parsed) [] =
    (Inr (answer (JStr (js ''No response received''))), [Fetch (provider_request d p)])
    \<and> http_status (answer (JStr (js ''No response received'')) :: 'n http_response) = 200"
  using assms POST_answer [of parsed q sj rt p world d r data JUndefined]
  by (simp add: or_else_def answer_def)

theorem relay_falls_back_without_text_witness:
  "(JObj [(js ''candidates'', JArr [])] :: unit jsval) \<noteq> JNull
   \<and> candidate_text (JObj [(js ''candidates'', JArr [])] :: unit jsval) = Inr JUndefined
   \<and> (\<exists>p. POST sample_runtime sample_deployment (resolves 200 (JObj [(js ''candidates'', JArr [])]))
        (Inr (chat_json (js ''What is inertia?'') (js ''Physics''))) [] =
      (Inr (answer (JStr (js ''No response received''))),
       [Fetch (provider_request sample_deployment p)]))"
proof -
  obtain p where p: "prompt sample_runtime (JStr (js ''Physics'')) (JStr (js ''What is inertia?'')) = Inr p"
    using prompt_strings by blast
  have none: "candidate_text (JObj [(js ''candidates'', JArr [])] :: unit jsval) = Inr JUndefined"
    by (simp add: candidate_text_missing)
  have "POST sample_runtime sample_deployment (resolves 200 (JObj [(js ''candidates'', JArr [])]))
        (Inr (chat_json (js ''What is inertia?'') (js ''Physics''))) [] =
      (Inr (answer (JStr (js ''No response received''))),
       [Fetch (provider_request sample_deployment p)])
    \<and> http_status (answer (JStr (js ''No response received'')) :: unit http_response) = 200"
    by (rule relay_falls_back_without_text [where q = "JStr (js ''What is inertia?'')"
          and sj = "JStr (js ''Physics'')"
          and data = "JObj [(js ''candidates'', JArr [])]"
          and r = "\<lparr>status = 200, statusText = [],
            json = Inr (JObj [(js ''candidates'', JArr [])])\<rparr>"])
       (simp_all add: p none resolves_def ok_def)
  then have run: "POST sample_runtime sample_deployment
        (resolves 200 (JObj [(js ''candidates'', JArr [])]))
        (Inr (chat_json (js ''What is inertia?'') (js ''Physics''))) [] =
      (Inr (answer (JStr (js ''No response received''))),
       [Fetch (provider_request sample_deployment p)])"
    by (rule conjunct1)
  have "\<exists>p. POST sample_runtime sample_deployment
        (resolves 200 (JObj [(js ''candidates'', JArr [])]))
        (Inr (chat_json (js ''What is inertia?'') (js ''Physics''))) [] =
      (Inr (answer (JStr (js ''No response received''))),
       [Fetch (provider_request sample_deployment p)])"
    by (rule exI [of _ p]) (rule run)
  with none show ?thesis
    by simp
qed

text \<open>
  Claim C4 as stated fails on a response whose JSON is \<^verbatim>\<open>null\<close>: it has no candidates
  and no text to extract, yet \<^verbatim>\<open>data.candidates\<close> throws on it, the catch-all logs the
  TypeError, and the relay answers with status 500 and the generic body, not with
  \<open>No response received\<close>.
\<close>

theorem relay_fails_on_null_reply:
  "ok (\<lparr>status = 200, statusText = [], json = Inr JNull\<rparr> :: unit fetch_response)
   \<and> fst (POST sample_runtime sample_deployment (resolves 200 JNull)
        (Inr (chat_json (js ''What is inertia?'') (js ''Physics''))) []) = Inr provider_error
   \<and> http_status (provider_error :: unit http_response) = 500
   \<and> (provider_error :: unit http_response) \<noteq> answer (JStr (js ''No response received''))"
proof -
  obtain p where p: "prompt sample_runtime (JStr (js ''Physics'')) (JStr (js ''What is inertia?'')) = Inr p"
    using prompt_strings by blast
  have "POST_try sample_runtime sample_deployment (resolves 200 JNull)
        (Inr (chat_json (js ''What is inertia?'') (js ''Physics''))) [] =
      (Inl TypeError, [] @ [Fetch (provider_request sample_deployment p)])"
    by (subst POST_try_ok [where p = p
          and r = "\<lparr>status = 200, statusText = [], json = Inr JNull\<rparr>"])
       (simp_all add: p resolves_def ok_def candidate_text_null)
  then have "POST sample_runtime sample_deployment (resolves 200 JNull)
        (Inr (chat_json (js ''What is inertia?'') (js ''Physics''))) [] =
      (Inr provider_error,
       [Fetch (provider_request sample_deployment p),
        ConsoleError (js ''Chat API Error:'') TypeError])"
    by (simp add: POST_catches)
  then show ?thesis
    by (simp add: ok_def provider_error_def answer_def)
qed

text \<open>
  Claim C9. The fallback is taken for every falsy value of the chain, not only for a
  missing field: a first candidate whose text is the empty string gives
  \<open>No response received\<close>, not the empty string.
\<close>

theorem relay_falls_back_on_falsy_text:
  assumes "get_prop parsed (js ''query'') = Inr q"
    and "get_prop parsed (js ''subject'') = Inr sj"
    and "\<not> falsy rt q" and "\<not> falsy rt sj"
    and "prompt rt sj q = Inr p"
    and "world (provider_request d p) = Inr r"
    and "ok r"
    and "json r = Inr data"
    and "candidate_text data = Inr t"
    and "falsy rt t"
  shows "POST rt d world (Inr parsed) [] =
    (Inr (answer (JStr (js ''No response received''))), [Fetch (provider_request d p)])"
  using assms POST_answer [of parsed q sj rt p world d r data t]
  by (simp add: or_else_def)

theorem relay_falls_back_on_falsy_text_witness:
  "candidate_text (provider_reply (JStr []) :: unit jsval) = Inr (JStr [])
   \<and> falsy sample_runtime (JStr [])
   \<and> (\<exists>p. POST sample_runtime sample_deployment (resolves 200 (provider_reply (JStr [])))
        (Inr (chat_json (js ''Define entropy'') (js ''Chemistry''))) [] =
      (Inr (answer (JStr (js ''No response received''))),
       [Fetch (provider_request sample_deployment p)]))"
proof -
  obtain p where p: "prompt sample_runtime (JStr (js ''Chemistry'')) (JStr (js ''Define entropy'')) = Inr p"
    using prompt_strings by blast
  have run: "POST sample_runtime sample_deployment (resolves 200 (provider_reply (JStr [])))
        (Inr (chat_json (js ''Define entropy'') (js ''Chemistry''))) [] =
      (Inr (answer (JStr (js ''No response received''))),
       [Fetch (provider_request sample_deployment p)])"
    by (rule relay_falls_back_on_falsy_text [where q = "JStr (js ''Define entropy'')"
          and sj = "JStr (js ''Chemistry'')" and t = "JStr []"
          and data = "provider_reply (JStr [])"
          and r = "\<lparr>status = 200, statusText = [], json = Inr (provider_reply (JStr []))\<rparr>"])
       (simp_all add: p resolves_def ok_def)
  have "\<exists>p. POST sample_runtime sample_deployment (resolves 200 (provider_reply (JStr [])))
        (Inr (chat_json (js ''Define entropy'') (js ''Chemistry''))) [] =
      (Inr (answer (JStr (js ''No response received''))),
       [Fetch (provider_request sample_deployment p)])"
    by (rule exI [of _ p]) (rule run)
  then show ?thesis
    by simp
qed

section \<open>The relay: one call for each request\<close>

text \<open>
  Claim C5. For a request whose \<^verbatim>\<open>query\<close> and \<^verbatim>\<open>subject\<close> are non-empty strings, as the
  interface of the endpoint declares them, the relay makes exactly one call, to the
  \<^verbatim>\<open>generateContent\<close> endpoint of the provider, whatever the provider does with it:
  there is no retry and no second call. (For truthy values of other JSON types the same
  holds whenever the template literal can convert them, by \<open>POST_try_trace\<close>; an object
  with an own property \<^verbatim>\<open>toString\<close> makes the conversion throw before the call.)
\<close>

theorem relay_calls_provider_once:
  assumes "get_prop parsed (js ''query'') = Inr (JStr q)"
    and "get_prop parsed (js ''subject'') = Inr (JStr sj)"
    and "q \<noteq> []" and "sj \<noteq> []"
  shows "\<exists>p. prompt rt (JStr sj) (JStr q) = Inr p
    \<and> fetches (snd (POST rt d world (Inr parsed) [])) = [provider_request d p]
    \<and> url (provider_request d p) =
        js ''https://generativelanguage.googleapis.com/v1beta/models/gemini-1.5-flash:generateContent''"
proof -
  obtain p where p: "prompt rt (JStr sj) (JStr q) = Inr p"
    using prompt_strings by blast
  from assms p have "snd (POST_try rt d world (Inr parsed) []) = [] @ [Fetch (provider_request d p)]"
    by (intro POST_try_trace) (auto simp: get_prop_Inr_iff)
  then have "fetches (snd (POST rt d world (Inr parsed) [])) = [provider_request d p]"
    by (simp add: fetches_POST)
  moreover have "url (provider_request d p) =
      js ''https://generativelanguage.googleapis.com/v1beta/models/gemini-1.5-flash:generateContent''"
    by (simp add: provider_request_def baseURL_def js_append [symmetric])
  ultimately show ?thesis
    using p by blast
qed

theorem relay_calls_provider_once_witness:
  "length (fetches (snd (POST sample_runtime sample_deployment (rejects (Error (js ''network down'')))
      (Inr (chat_json (js ''What is inertia?'') (js ''Physics''))) []))) = 1
   \<and> length (fetches (snd (POST sample_runtime sample_deployment
      (resolves 200 (provider_reply (JStr (js ''Inertia is resistance to change.''))))
      (Inr (chat_json (js ''What is inertia?'') (js ''Physics''))) []))) = 1"
  using relay_calls_provider_once [of "chat_json (js ''What is inertia?'') (js ''Physics'')"
      "js ''What is inertia?''" "js ''Physics''" sample_runtime sample_deployment
      "rejects (Error (js ''network down''))"]
    relay_calls_provider_once [of "chat_json (js ''What is inertia?'') (js ''Physics'')"
      "js ''What is inertia?''" "js ''Physics''" sample_runtime sample_deployment
      "resolves 200 (provider_reply (JStr (js ''Inertia is resistance to change.'')))"]
  by auto

section \<open>The widget: running the handlers\<close>

lemmas setter_defs =
  setIsOpen_def setQuery_def setSubject_def setResponse_def setLoading_def
  preventDefault_def send_def

lemma failure_text_not_empty [simp]: "failure_text \<noteq> []"
  by (simp add: failure_text_def)

lemma clearChat_run:
  "clearChat (s, tr) = (Inr (), (s\<lparr>query := [], response := JStr [], subject := []\<rparr>, tr))"
  by (simp add: clearChat_def comp_defs setter_defs)

lemma handleSubmit_start_inert:
  "trim (query s) = [] \<or> subject s = [] \<Longrightarrow>
   handleSubmit_start (s, tr) = (Inr None, (s, tr @ [PreventDefault]))"
  by (auto simp: handleSubmit_start_def comp_defs setter_defs)

lemma handleSubmit_start_sends:
  "trim (query s) \<noteq> [] \<Longrightarrow> subject s \<noteq> [] \<Longrightarrow>
   handleSubmit_start (s, tr) =
     (Inr (Some (chat_request (query s) (subject s))),
      (s\<lparr>loading := True, response := JStr []\<rparr>,
       tr @ [PreventDefault, Fetch (chat_request (query s) (subject s))]))"
  by (simp add: handleSubmit_start_def comp_defs setter_defs)

lemma handleSubmit_resume_rejected:
  "handleSubmit_resume rt (Inl e) (s, tr) =
     (Inr (), (s\<lparr>response := JStr failure_text, loading := False\<rparr>, tr))"
  by (simp add: handleSubmit_resume_def comp_defs setter_defs)

lemma handleSubmit_resume_unparseable:
  "json res = Inl e \<Longrightarrow>
   handleSubmit_resume rt (Inr res) (s, tr) =
     (Inr (), (s\<lparr>response := JStr failure_text, loading := False\<rparr>, tr))"
  by (simp add: handleSubmit_resume_def comp_defs setter_defs)

lemma handleSubmit_resume_unsuccessful:
  "json res = Inr data \<Longrightarrow> falsy rt (own_prop data (js ''success'')) \<Longrightarrow>
   handleSubmit_resume rt (Inr res) (s, tr) =
     (Inr (), (s\<lparr>response := JStr failure_text, loading := False\<rparr>, tr))"
  by (simp add: handleSubmit_resume_def comp_defs setter_defs get_prop_def)

lemma handleSubmit_resume_successful:
  "json res = Inr data \<Longrightarrow> \<not> falsy rt (own_prop data (js ''success'')) \<Longrightarrow>
   handleSubmit_resume rt (Inr res) (s, tr) =
     (Inr (), (s\<lparr>response := own_prop data (js ''response''), loading := False\<rparr>, tr))"
  by (cases data) (simp_all add: handleSubmit_resume_def comp_defs setter_defs get_prop_def)

lemma handleSubmit_resume_returns: "fst (handleSubmit_resume rt outcome (s, tr)) = Inr ()"
proof (cases outcome)
  case (Inl e)
  then show ?thesis
    by (simp add: handleSubmit_resume_rejected)
next
  case (Inr res)
  show ?thesis
  proof (cases "json res")
    case (Inl e)
    with Inr show ?thesis
      by (simp add: handleSubmit_resume_unparseable)
  next
    case data: (Inr data)
    with Inr show ?thesis
      by (cases "falsy rt (own_prop data (js ''success''))")
        (simp_all add: handleSubmit_resume_unsuccessful handleSubmit_resume_successful)
  qed
qed

lemma handleSubmit_returns: "fst (handleSubmit rt world (s, tr)) = Inr ()"
proof (cases "trim (query s) = [] \<or> subject s = []")
  case True
  then show ?thesis
    by (simp add: handleSubmit_def bind_def return_def handleSubmit_start_inert)
next
  case False
  then show ?thesis
    by (simp add: handleSubmit_def bind_def handleSubmit_start_sends handleSubmit_resume_returns)
qed

section \<open>The widget: submitting\<close>

text \<open>
  Claim C6. In every state of the widget in which the question is empty after trimming
  or no subject is selected, submitting does nothing: \<^verbatim>\<open>handleSubmit\<close> returns after
  \<^verbatim>\<open>e.preventDefault()\<close>, no hook changes, and no request is sent to the relay. The
  submit button is disabled in these states.
\<close>

theorem handleSubmit_inert:
  assumes "trim (query s) = [] \<or> subject s = []"
  shows "handleSubmit rt world (s, []) = (Inr (), (s, [PreventDefault]))
    \<and> fetches (snd (snd (handleSubmit rt world (s, [])))) = []
    \<and> submit_disabled s"
  using assms
  by (auto simp: handleSubmit_def bind_def return_def handleSubmit_start_inert submit_disabled_def)

theorem handleSubmit_inert_witness:
  "trim (js ''  '') = []
   \<and> handleSubmit sample_runtime (resolves 200 (JObj []))
        (initial_state\<lparr>query := js ''  '', subject := js ''Physics''\<rparr>, []) =
      (Inr (), (initial_state\<lparr>query := js ''  '', subject := js ''Physics''\<rparr>, [PreventDefault]))
   \<and> handleSubmit sample_runtime (resolves 200 (JObj []))
        (initial_state\<lparr>query := js ''test'', subject := []\<rparr>, []) =
      (Inr (), (initial_state\<lparr>query := js ''test'', subject := []\<rparr>, [PreventDefault]))"
proof -
  have blank: "trim (js ''  '') = []"
    by (simp add: trim_def js_def is_white_space_def)
  show ?thesis
    using blank
      handleSubmit_inert [of "initial_state\<lparr>query := js ''  '', subject := js ''Physics''\<rparr>"
        sample_runtime "resolves 200 (JObj [])"]
      handleSubmit_inert [of "initial_state\<lparr>query := js ''test'', subject := []\<rparr>"
        sample_runtime "resolves 200 (JObj [])"]
    by simp
qed

text \<open>
  Claim C8. Whenever the call to the relay fails, whether the promise of \<^verbatim>\<open>fetch\<close> is
  rejected (a network failure), the body of the answer is not JSON, or the answer has no
  truthy \<^verbatim>\<open>success\<close>, \<^verbatim>\<open>handleSubmit\<close> returns without throwing, with \<open>loading\<close> off and
  the one fixed message in \<open>response\<close>, whatever the hooks were when the call settled:
  the phase is \<open>Failed\<close> and the response area shows that message.
\<close>

theorem handleSubmit_failure:
  assumes "(\<exists>e. outcome = Inl e)
    \<or> (\<exists>res e. outcome = Inr res \<and> json res = Inl e)
    \<or> (\<exists>res data. outcome = Inr res \<and> json res = Inr data
          \<and> falsy rt (own_prop data (js ''success'')))"
  shows "handleSubmit_resume rt outcome (s, tr) =
      (Inr (), (s\<lparr>response := JStr failure_text, loading := False\<rparr>, tr))
    \<and> phase rt (s\<lparr>response := JStr failure_text, loading := False\<rparr>) = Failed
    \<and> response_area rt (s\<lparr>response := JStr failure_text, loading := False\<rparr>) =
        Shown (JStr failure_text)"
proof -
  from assms have "handleSubmit_resume rt outcome (s, tr) =
      (Inr (), (s\<lparr>response := JStr failure_text, loading := False\<rparr>, tr))"
    by (auto simp: handleSubmit_resume_rejected handleSubmit_resume_unparseable
        handleSubmit_resume_unsuccessful)
  then show ?thesis
    by (simp add: phase_def response_area_def)
qed

theorem handleSubmit_failure_witness:
  "handleSubmit_resume sample_runtime
      (Inr \<lparr>status = 500, statusText = [], json = Inr (payload provider_error)\<rparr>)
      (initial_state\<lparr>loading := True\<rparr>, []) =
    (Inr (), (initial_state\<lparr>response := JStr failure_text, loading := False\<rparr>, []))
   \<and> handleSubmit_resume sample_runtime (Inl (Error (js ''Failed to fetch'')))
      (initial_state\<lparr>loading := True\<rparr>, []) =
    (Inr (), (initial_state\<lparr>response := JStr failure_text, loading := False\<rparr>, []))
   \<and> handleSubmit_resume sample_runtime
      (Inr \<lparr>status = 502, statusText = [], json = Inl SyntaxError\<rparr>)
      (initial_state\<lparr>loading := True\<rparr>, []) =
    (Inr (), (initial_state\<lparr>response := JStr failure_text, loading := False\<rparr>, []))
   \<and> phase sample_runtime (initial_state\<lparr>response := JStr failure_text, loading := False\<rparr>)
      = Failed"
  using handleSubmit_failure [of
      "Inr \<lparr>status = 500, statusText = [], json = Inr (payload provider_error)\<rparr>"
      sample_runtime "initial_state\<lparr>loading := True\<rparr>" "[]"]
    handleSubmit_failure [of "Inl (Error (js ''Failed to fetch''))"
      sample_runtime "initial_state\<lparr>loading := True\<rparr>" "[]"]
    handleSubmit_failure [of "Inr \<lparr>status = 502, statusText = [], json = Inl SyntaxError\<rparr>"
      sample_runtime "initial_state\<lparr>loading := True\<rparr>" "[]"]
  by (simp add: provider_error_def)

section \<open>The widget: clearing\<close>

text \<open>
  Claim C7, amended. From any state, \<^verbatim>\<open>clearChat\<close> empties \<open>query\<close>, \<open>subject\<close> and
  \<open>response\<close> and leaves \<open>isOpen\<close> and \<open>loading\<close> as they are. So the phase afterwards
  is \<open>Idle\<close> when no call is in flight, and it stays \<open>Pending\<close> while one is.
\<close>

theorem clearChat_resets:
  "clearChat (s, tr) = (Inr (), (s\<lparr>query := [], response := JStr [], subject := []\<rparr>, tr))
   \<and> phase rt (s\<lparr>query := [], response := JStr [], subject := []\<rparr>) =
       (if loading s then Pending else Idle)"
  by (simp add: clearChat_run phase_def)

theorem clearChat_resets_witness:
  "clearChat (\<lparr>isOpen = True, query = js ''What is inertia?'', subject = js ''Physics'',
       response = JStr (js ''Inertia is resistance to change.''), loading = False\<rparr>, []) =
     (Inr (), (\<lparr>isOpen = True, query = [], subject = [], response = (JStr [] :: unit jsval),
       loading = False\<rparr>, []))
   \<and> phase sample_runtime \<lparr>isOpen = True, query = [], subject = [], response = JStr [],
       loading = False\<rparr> = Idle"
  using clearChat_resets [of "\<lparr>isOpen = True, query = js ''What is inertia?'',
      subject = js ''Physics'', response = JStr (js ''Inertia is resistance to change.''),
      loading = False\<rparr>" "[]" sample_runtime]
  by simp

text \<open>
  Claim C7 as stated fails when a call is in flight: after a submission, \<^verbatim>\<open>clearChat\<close>
  leaves \<open>loading\<close> on, so the widget still shows that it is thinking and the phase is
  \<open>Pending\<close>, not \<open>Idle\<close>.
\<close>

theorem clearChat_keeps_pending:
  "handleSubmit_start (initial_state\<lparr>query := js ''Hi'', subject := js ''Physics''\<rparr>, []) =
     (Inr (Some (chat_request (js ''Hi'') (js ''Physics''))),
      (\<lparr>isOpen = False, query = js ''Hi'', subject = js ''Physics'',
        response = (JStr [] :: unit jsval), loading = True\<rparr>,
       [PreventDefault, Fetch (chat_request (js ''Hi'') (js ''Physics''))]))
   \<and> clearChat (\<lparr>isOpen = False, query = js ''Hi'', subject = js ''Physics'',
        response = (JStr [] :: unit jsval), loading = True\<rparr>,
       [PreventDefault, Fetch (chat_request (js ''Hi'') (js ''Physics''))]) =
     (Inr (),
      (\<lparr>isOpen = False, query = [], subject = [], response = JStr [], loading = True\<rparr>,
       [PreventDefault, Fetch (chat_request (js ''Hi'') (js ''Physics''))]))
   \<and> phase sample_runtime \<lparr>isOpen = False, query = [], subject = [], response = JStr [],
        loading = True\<rparr> = Pending
   \<and> response_area sample_runtime \<lparr>isOpen = False, query = [], subject = [],
        response = JStr [], loading = True\<rparr> = Thinking
   \<and> Pending \<noteq> Idle"
proof -
  have "trim (js ''Hi'') \<noteq> []"
    by (simp add: trim_def js_def is_white_space_def)
  then show ?thesis
    by (simp add: handleSubmit_start_sends clearChat_run initial_state_def phase_def
        response_area_def)
qed

end
